theory Spec2Isabelle
  imports Complex_Main "HOL-Library.AList"
begin

section \<open>Numeric model\<close>

text \<open>
  The two components verified here are
  \<^verbatim>\<open>algorithms/scientific/bayesian_ensemble.py\<close> (class BayesianModelAveraging) and
  \<^verbatim>\<open>algorithms/scientific/bias_correction.py\<close> (class QuantileMappingCorrection).

  A numpy float64 is modelled by a real number: every theorem below is a statement about
  exact arithmetic, rounding is not modelled. Where a float operation of the source
  leaves the finite numbers (0/0, x/0, the mean of an empty array, the logarithm of a
  non-positive number) the model says so explicitly:
  \<^item> a single float that may be non-finite is a \<open>real option\<close>, \<open>None\<close> standing for
    nan or an infinity;
  \<^item> a logarithm is a \<open>real option\<close> too, \<open>None\<close> standing for minus infinity, the
    logarithm of 0;
  \<^item> a function returns \<open>Inl NonFinite\<close> where the source goes on with nan (numpy only
    warns): from there on every number it computes is nan, and \<^verbatim>\<open>compute_weights\<close>
    returns weights that are all nan.
  A Python exception is the \<open>Inl\<close> branch of a sum. A dict is an association list with
  the insertion order of Python; \<open>AList.update\<close> is the assignment \<^verbatim>\<open>d[k] = v\<close>.
\<close>

datatype error =
    ValueError
  | IndexError
  | AttributeError
  | UnboundLocalError
  | ZeroDivisionError
  | NonFinite

type_synonym 'v dict = "(string \<times> 'v) list"

definition dict_get :: "'v dict \<Rightarrow> string \<Rightarrow> 'v \<Rightarrow> 'v" where
  \<comment> \<open>\<^verbatim>\<open>d.get(k, default)\<close>\<close>
  "dict_get d k dflt = (case map_of d k of None \<Rightarrow> dflt | Some v \<Rightarrow> v)"

definition np_mean :: "real list \<Rightarrow> real option" where
  \<comment> \<open>\<^verbatim>\<open>np.mean\<close>: nan on an empty array\<close>
  "np_mean xs = (if xs = [] then None else Some (sum_list xs / real (length xs)))"

definition np_var :: "real list \<Rightarrow> real option" where
  \<comment> \<open>\<^verbatim>\<open>np.var(x, ddof=0)\<close>: the mean of the squared deviations from the mean\<close>
  "np_var xs =
     (case np_mean xs of
        None \<Rightarrow> None
      | Some m \<Rightarrow> np_mean (map (\<lambda>x. (x - m)\<^sup>2) xs))"

definition np_std :: "real list \<Rightarrow> real option" where
  "np_std xs = map_option sqrt (np_var xs)"

definition np_sub :: "real list \<Rightarrow> real list \<Rightarrow> error + real list" where
  \<comment> \<open>\<^verbatim>\<open>a - b\<close> on one-dimensional arrays, with numpy's broadcasting of a length-1 array\<close>
  "np_sub a b =
     (if length a = length b then Inr (map2 (-) a b)
      else if length b = 1 then Inr (map (\<lambda>x. x - hd b) a)
      else if length a = 1 then Inr (map (\<lambda>y. hd a - y) b)
      else Inl ValueError)"

definition np_log :: "real \<Rightarrow> error + real option" where
  \<comment> \<open>\<^verbatim>\<open>np.log\<close>: minus infinity at 0 (\<open>None\<close>) and nan below 0\<close>
  "np_log x =
     (if 0 < x then Inr (Some (ln x))
      else if x = 0 then Inr None
      else Inl NonFinite)"

definition finite_entries :: "real option list \<Rightarrow> real list" where
  \<comment> \<open>the entries that are not minus infinity\<close>
  "finite_entries a = concat (map (\<lambda>x. case x of None \<Rightarrow> [] | Some v \<Rightarrow> [v]) a)"

definition logsumexp :: "real option list \<Rightarrow> error + real option" where
  \<comment> \<open>\<^verbatim>\<open>scipy.special.logsumexp\<close> on numbers that are finite or minus infinity: the
      maximum is subtracted before exponentiating, and an entry that is minus infinity adds
      \<open>exp(-inf) = 0\<close> to the sum. The maximum of an empty list raises ValueError; when every
      entry is minus infinity the sum is 0 and the result is minus infinity.\<close>
  "logsumexp a =
     (if a = [] then Inl ValueError
      else if finite_entries a = [] then Inr None
      else let a_max = Max (set (finite_entries a))
           in Inr (Some (ln (sum_list (map (\<lambda>x. exp (x - a_max)) (finite_entries a)))
                         + a_max)))"

definition np_exp_minus :: "real option \<Rightarrow> real \<Rightarrow> real" where
  \<comment> \<open>\<^verbatim>\<open>np.exp(log_post - log_evidence)\<close> for a finite \<^verbatim>\<open>log_evidence\<close>\<close>
  "np_exp_minus log_post log_evidence =
     (case log_post of None \<Rightarrow> 0 | Some x \<Rightarrow> exp (x - log_evidence))"

section \<open>BayesianModelAveraging\<close>

record bma =
  model_names :: "string list"
  n_models :: nat
  posterior_weights :: "real dict option"
  model_variances :: "real dict option"

definition BayesianModelAveraging :: "string list \<Rightarrow> bma" where
  \<comment> \<open>\<^verbatim>\<open>__init__\<close>\<close>
  "BayesianModelAveraging names =
     \<lparr>model_names = names, n_models = length names,
      posterior_weights = None, model_variances = None\<rparr>"

definition compute_log_likelihood :: "real list \<Rightarrow> real list \<Rightarrow> real \<Rightarrow> error + real" where
  "compute_log_likelihood predictions observations variance =
     (let n = length observations
      in case np_sub observations predictions of
           Inl e \<Rightarrow> Inl e
         | Inr residuals \<Rightarrow>
             (let rss = sum_list (map (\<lambda>r. r\<^sup>2) residuals)
              in if variance \<le> 0 then Inl NonFinite
                 else Inr (- real n / 2 * ln (2 * pi * variance) - rss / (2 * variance))))"

definition estimate_variance :: "real list \<Rightarrow> real list \<Rightarrow> error + real" where
  "estimate_variance predictions observations =
     (case np_sub observations predictions of
        Inl e \<Rightarrow> Inl e
      | Inr residuals \<Rightarrow>
          (case np_var residuals of
             None \<Rightarrow> Inl NonFinite
           | Some v \<Rightarrow> Inr (v + 1 / 10 ^ 10)))"

definition spec_residual_variance :: "real list \<Rightarrow> real list \<Rightarrow> error + real" where
  \<comment> \<open>The variance in the words of the specification and of the docstring of
      \<^verbatim>\<open>estimate_variance\<close>: the mean of the squared residuals, plus 1e-10.\<close>
  "spec_residual_variance predictions observations =
     (case np_sub observations predictions of
        Inl e \<Rightarrow> Inl e
      | Inr residuals \<Rightarrow>
          (case np_mean (map (\<lambda>r. r\<^sup>2) residuals) of
             None \<Rightarrow> Inl NonFinite
           | Some v \<Rightarrow> Inr (v + 1 / 10 ^ 10)))"

fun likelihood_loop ::
  "string list \<Rightarrow> real list dict \<Rightarrow> real list \<Rightarrow> real dict \<times> real dict
     \<Rightarrow> error + (real dict \<times> real dict)" where
  \<comment> \<open>the loop over \<^verbatim>\<open>self.model_names\<close>; the accumulator is
      \<^verbatim>\<open>(log_likelihoods, variances)\<close>\<close>
  "likelihood_loop [] mp obs acc = Inr acc"
| "likelihood_loop (name # names) mp obs (lls, vars) =
     (case map_of mp name of
        None \<Rightarrow> likelihood_loop names mp obs (lls, vars)
      | Some preds \<Rightarrow>
          (case estimate_variance preds obs of
             Inl e \<Rightarrow> Inl e
           | Inr var \<Rightarrow>
               (case compute_log_likelihood preds obs var of
                  Inl e \<Rightarrow> Inl e
                | Inr ll \<Rightarrow>
                    likelihood_loop names mp obs
                      (AList.update name ll lls, AList.update name var vars))))"

fun posterior_loop ::
  "real dict \<Rightarrow> real dict \<Rightarrow> nat \<Rightarrow> real option dict \<Rightarrow> error + real option dict" where
  \<comment> \<open>the loop over \<^verbatim>\<open>log_likelihoods\<close>; \<^verbatim>\<open>1.0 / self.n_models\<close> is evaluated at every
      round, before \<^verbatim>\<open>get\<close> is called\<close>
  "posterior_loop [] prior n acc = Inr acc"
| "posterior_loop ((name, ll) # rest) prior n acc =
     (if n = 0 then Inl ZeroDivisionError
      else case np_log (dict_get prior name (1 / real n)) of
             Inl e \<Rightarrow> Inl e
           | Inr log_prior \<Rightarrow>
               posterior_loop rest prior n
                 (AList.update name (map_option (\<lambda>lp. lp + ll) log_prior) acc))"

definition weights_loop :: "real option dict \<Rightarrow> real \<Rightarrow> real dict" where
  \<comment> \<open>the loop over \<^verbatim>\<open>log_posteriors.items()\<close>, for a finite \<^verbatim>\<open>log_evidence\<close>\<close>
  "weights_loop log_posteriors log_evidence =
     foldl (\<lambda>weights (name, log_post).
              AList.update name (np_exp_minus log_post log_evidence) weights)
       [] log_posteriors"

definition uniform_prior :: "bma \<Rightarrow> error + real dict" where
  \<comment> \<open>\<^verbatim>\<open>{name: 1.0 / self.n_models for name in self.model_names}\<close>\<close>
  "uniform_prior b =
     (if model_names b \<noteq> [] \<and> n_models b = 0 then Inl ZeroDivisionError
      else Inr (foldl (\<lambda>d name. AList.update name (1 / real (n_models b)) d)
                  [] (model_names b)))"

definition compute_weights ::
  "bma \<Rightarrow> real list dict \<Rightarrow> real list \<Rightarrow> real dict option \<Rightarrow> bma \<times> (error + real dict)" where
  \<comment> \<open>returns the instance after the call and either the exception raised or the
      weights returned. When \<^verbatim>\<open>log_evidence\<close> is minus infinity every log-posterior is
      minus infinity as well and every weight is \<open>exp(-inf + inf)\<close>, a nan.\<close>
  "compute_weights b models_predictions observations prior_weights =
     (case (case prior_weights of None \<Rightarrow> uniform_prior b | Some p \<Rightarrow> Inr p) of
        Inl e \<Rightarrow> (b, Inl e)
      | Inr prior \<Rightarrow>
          (case likelihood_loop (model_names b) models_predictions observations ([], []) of
             Inl e \<Rightarrow> (b, Inl e)
           | Inr (log_likelihoods, variances) \<Rightarrow>
               (let b1 = b\<lparr>model_variances := Some variances\<rparr>
                in case posterior_loop log_likelihoods prior (n_models b) [] of
                     Inl e \<Rightarrow> (b1, Inl e)
                   | Inr log_posteriors \<Rightarrow>
                       (case logsumexp (map snd log_posteriors) of
                          Inl e \<Rightarrow> (b1, Inl e)
                        | Inr None \<Rightarrow> (b1, Inl NonFinite)
                        | Inr (Some log_evidence) \<Rightarrow>
                            (let weights = weights_loop log_posteriors log_evidence
                             in (b1\<lparr>posterior_weights := Some weights\<rparr>, Inr weights))))))"

record prediction =
  mean :: "real list"
  std :: "real option list"
  lower_95 :: "real option list"
  upper_95 :: "real option list"

definition np_sqrt :: "real \<Rightarrow> real option" where
  \<comment> \<open>\<^verbatim>\<open>np.sqrt\<close>: nan below 0\<close>
  "np_sqrt x = (if x < 0 then None else Some (sqrt x))"

definition ragged :: "real list list \<Rightarrow> bool" where
  "ragged rows = list_ex (\<lambda>r. length r \<noteq> length (hd rows)) rows"

fun variance_loop ::
  "nat \<Rightarrow> real list dict \<Rightarrow> real dict \<Rightarrow> real dict option \<Rightarrow> real list list \<Rightarrow> real list
     \<Rightarrow> real list \<times> real list \<Rightarrow> error + (real list \<times> real list)" where
  \<comment> \<open>the loop \<^verbatim>\<open>for i, name in enumerate(models_predictions)\<close>; the accumulator is
      \<^verbatim>\<open>(within_var, between_var)\<close>\<close>
  "variance_loop i [] pw mv all_preds bma_mean acc = Inr acc"
| "variance_loop i ((name, p) # rest) pw mv all_preds bma_mean (within_var, between_var) =
     (case map_of pw name of
        None \<Rightarrow> variance_loop (i + 1) rest pw mv all_preds bma_mean (within_var, between_var)
      | Some w \<Rightarrow>
          (case mv of
             None \<Rightarrow> Inl AttributeError
           | Some variances \<Rightarrow>
               (let var = dict_get variances name 1;
                    within_var' = map (\<lambda>x. x + w * var) within_var
                in if length all_preds \<le> i then Inl IndexError
                   else variance_loop (i + 1) rest pw mv all_preds bma_mean
                          (within_var',
                           map2 (\<lambda>b (x, m). b + w * (x - m)\<^sup>2) between_var
                             (zip (all_preds ! i) bma_mean)))))"

definition predict_moments ::
  "bma \<Rightarrow> real list dict \<Rightarrow> error + (real list \<times> real list \<times> real list)" where
  \<comment> \<open>lines 172 to 198 of \<^verbatim>\<open>predict\<close>: \<^verbatim>\<open>(bma_mean, within_var, between_var)\<close>.
      \<^verbatim>\<open>np.array\<close> of rows of different lengths raises ValueError, and
      \<^verbatim>\<open>all_preds.shape[1]\<close> raises IndexError when no row was stacked.\<close>
  "predict_moments b models_predictions =
     (case posterior_weights b of
        None \<Rightarrow> Inl ValueError
      | Some pw \<Rightarrow>
          (let stacked = filter (\<lambda>(name, p). map_of pw name \<noteq> None) models_predictions;
               all_preds = map snd stacked;
               weights = map (\<lambda>(name, p). dict_get pw name 0) stacked
           in if ragged all_preds then Inl ValueError
              else if all_preds = [] then Inl IndexError
              else
                (let T = length (hd all_preds);
                     bma_mean =
                       map (\<lambda>t. sum_list (map2 (\<lambda>w p. w * p ! t) weights all_preds)) [0..<T]
                 in case variance_loop 0 models_predictions pw (model_variances b)
                           all_preds bma_mean (replicate T 0, replicate T 0) of
                      Inl e \<Rightarrow> Inl e
                    | Inr (within_var, between_var) \<Rightarrow>
                        Inr (bma_mean, within_var, between_var))))"

definition predict :: "bma \<Rightarrow> real list dict \<Rightarrow> error + prediction" where
  "predict b models_predictions =
     (case predict_moments b models_predictions of
        Inl e \<Rightarrow> Inl e
      | Inr (bma_mean, within_var, between_var) \<Rightarrow>
          (let bma_var = map2 (+) within_var between_var;
               bma_std = map np_sqrt bma_var
           in Inr \<lparr>mean = bma_mean,
                   std = bma_std,
                   lower_95 = map2 (\<lambda>m s. map_option (\<lambda>s. m - 196 / 100 * s) s) bma_mean bma_std,
                   upper_95 = map2 (\<lambda>m s. map_option (\<lambda>s. m + 196 / 100 * s) s) bma_mean bma_std\<rparr>))"

definition weighted_sum ::
  "real dict \<Rightarrow> real list dict \<Rightarrow> (string \<Rightarrow> real list \<Rightarrow> real) \<Rightarrow> real" where
  \<comment> \<open>the sum over the models of the input of the weight times a quantity of the model;
      used to state what \<^verbatim>\<open>predict\<close> computes\<close>
  "weighted_sum pw mp f = sum_list (map (\<lambda>(name, p). dict_get pw name 0 * f name p) mp)"

section \<open>QuantileMappingCorrection\<close>

subsection \<open>Float arithmetic that may leave the finite numbers\<close>

fun fl_sub :: "real option \<Rightarrow> real option \<Rightarrow> real option" where
  "fl_sub (Some x) (Some y) = Some (x - y)"
| "fl_sub _ _ = None"

fun fl_add :: "real option \<Rightarrow> real option \<Rightarrow> real option" where
  "fl_add (Some x) (Some y) = Some (x + y)"
| "fl_add _ _ = None"

fun fl_mul :: "real option \<Rightarrow> real option \<Rightarrow> real option" where
  "fl_mul (Some x) (Some y) = Some (x * y)"
| "fl_mul _ _ = None"

fun fl_div :: "real option \<Rightarrow> real option \<Rightarrow> real option" where
  \<comment> \<open>x / 0 is nan or an infinity. A divisor that is \<open>None\<close> is a nan in this program
      (the mean, the variance or the standard deviation of an empty array).\<close>
  "fl_div (Some x) (Some y) = (if y = 0 then None else Some (x / y))"
| "fl_div _ _ = None"

subsection \<open>scipy.interpolate.interp1d, linear, without extrapolation\<close>

record interp1d =
  ix :: "real list"
  iy :: "real list"
  fill_value_below :: real
  fill_value_above :: real

definition new_interp1d :: "real list \<Rightarrow> real list \<Rightarrow> real \<times> real \<Rightarrow> error + interp1d" where
  \<comment> \<open>\<^verbatim>\<open>interp1d(x, y, bounds_error=False, fill_value=(below, above))\<close> on a sorted
      \<open>x\<close>: x and y must have the same length and at least one entry\<close>
  "new_interp1d x y fill_value =
     (if length x \<noteq> length y then Inl ValueError
      else if length x < 1 then Inl ValueError
      else Inr \<lparr>ix = x, iy = y,
                fill_value_below = fst fill_value, fill_value_above = snd fill_value\<rparr>)"

fun np_interp :: "real list \<Rightarrow> real list \<Rightarrow> real \<Rightarrow> real" where
  \<comment> \<open>\<^verbatim>\<open>numpy.interp(v, xp, fp)\<close> for \<open>xp[0] \<le> v \<le> xp[-1]\<close>, to which a linear interp1d
      on float arrays delegates: with j the last index such that \<open>xp[j] \<le> v\<close>, the result
      is \<open>fp[j]\<close> when j is the last index or \<open>xp[j] = v\<close>, and the value at v of the
      line through the points j and j+1 otherwise\<close>
  "np_interp (x0 # x1 # xp) (y0 # y1 # fp) v =
     (if v < x1 then
        (if x0 = v then y0 else (y1 - y0) / (x1 - x0) * (v - x0) + y0)
      else np_interp (x1 # xp) (y1 # fp) v)"
| "np_interp [x0] (y0 # fp) v = y0"
| "np_interp _ _ v = 0" \<comment> \<open>no interp1d object has an empty x or fewer y than x\<close>

definition interp1d_call :: "interp1d \<Rightarrow> real \<Rightarrow> real" where
  \<comment> \<open>the call of an interp1d object on one value: outside of the range of x the
      fill values replace the interpolated value\<close>
  "interp1d_call f v =
     (if v < hd (ix f) then fill_value_below f
      else if last (ix f) < v then fill_value_above f
      else np_interp (ix f) (iy f) v)"

subsection \<open>The corrector\<close>

text \<open>
  An attribute that \<^verbatim>\<open>__init__\<close> does not create is \<open>None\<close> until \<^verbatim>\<open>fit\<close> assigns it.
  \<open>'g\<close> is the tuple of parameters that \<^verbatim>\<open>scipy.stats.gamma.fit\<close> returns; the three
  functions of \<^verbatim>\<open>scipy.stats.gamma\<close> are parameters of the model.
\<close>

record 'g qm =
  "method" :: string
  fitted :: bool
  model_data :: "real list option"
  obs_data :: "real list option"
  quantiles :: "real list option"
  model_to_quantile :: "interp1d option"
  quantile_to_obs :: "interp1d option"
  model_mean :: "real option option"
  model_std :: "real option option"
  obs_mean :: "real option option"
  obs_std :: "real option option"
  model_gamma :: "'g option"
  obs_gamma :: "'g option"

definition QuantileMappingCorrection :: "string \<Rightarrow> 'g qm" where
  \<comment> \<open>\<^verbatim>\<open>__init__\<close>\<close>
  "QuantileMappingCorrection m =
     \<lparr>method = m, fitted = False, model_data = None, obs_data = None, quantiles = None,
      model_to_quantile = None, quantile_to_obs = None,
      model_mean = None, model_std = None, obs_mean = None, obs_std = None,
      model_gamma = None, obs_gamma = None\<rparr>"

definition fit_empirical :: "'g qm \<Rightarrow> real list \<Rightarrow> real list \<Rightarrow> 'g qm \<times> error option" where
  \<comment> \<open>lines 83 to 97 of \<^verbatim>\<open>fit\<close>, on the sorted arrays\<close>
  "fit_empirical s sorted_model sorted_obs =
     (let n = length sorted_model;
          q = map (\<lambda>i. (real i - 1 / 2) / real n) [1..<n + 1];
          s1 = s\<lparr>quantiles := Some q\<rparr>
      in case new_interp1d sorted_model q (0, 1) of
           Inl e \<Rightarrow> (s1, Some e)
         | Inr f \<Rightarrow>
             (let s2 = s1\<lparr>model_to_quantile := Some f\<rparr>
              in if sorted_obs = [] then (s2, Some IndexError)
                 else case new_interp1d q sorted_obs (hd sorted_obs, last sorted_obs) of
                        Inl e \<Rightarrow> (s2, Some e)
                      | Inr g \<Rightarrow> (s2\<lparr>quantile_to_obs := Some g\<rparr>, None)))"

definition fit_gamma ::
  "(real list \<Rightarrow> error + 'g) \<Rightarrow> 'g qm \<Rightarrow> real list \<Rightarrow> real list \<Rightarrow> 'g qm \<times> error option" where
  \<comment> \<open>lines 111 and 112 of \<^verbatim>\<open>fit\<close>\<close>
  "fit_gamma gamma_fit s model_pos obs_pos =
     (case gamma_fit model_pos of
        Inl e \<Rightarrow> (s, Some e)
      | Inr mg \<Rightarrow>
          (case gamma_fit obs_pos of
             Inl e \<Rightarrow> (s\<lparr>model_gamma := Some mg\<rparr>, Some e)
           | Inr og \<Rightarrow> (s\<lparr>model_gamma := Some mg, obs_gamma := Some og\<rparr>, None)))"

fun mark_fitted :: "'g qm \<times> error option \<Rightarrow> 'g qm \<times> error option" where
  \<comment> \<open>line 119, reached when the branch taken has raised nothing\<close>
  "mark_fitted (s, None) = (s\<lparr>fitted := True\<rparr>, None)"
| "mark_fitted (s, Some e) = (s, Some e)"

function fit ::
  "(real list \<Rightarrow> error + 'g) \<Rightarrow> 'g qm \<Rightarrow> real list \<Rightarrow> real list \<Rightarrow> 'g qm \<times> error option" where
  \<comment> \<open>returns the instance after the call, and the exception raised if any\<close>
  "fit gamma_fit s mdata odata =
     (let s1 = s\<lparr>model_data := Some (sort mdata), obs_data := Some (sort odata)\<rparr>
      in if method s1 = ''empirical'' then
           mark_fitted (fit_empirical s1 (sort mdata) (sort odata))
         else if method s1 = ''parametric_normal'' then
           mark_fitted
             (s1\<lparr>model_mean := Some (np_mean mdata), model_std := Some (np_std mdata),
                 obs_mean := Some (np_mean odata), obs_std := Some (np_std odata)\<rparr>, None)
         else if method s1 = ''parametric_gamma'' then
           (let model_pos = filter (\<lambda>x. 0 < x) mdata;
                obs_pos = filter (\<lambda>x. 0 < x) odata
            in if 2 < length model_pos \<and> 2 < length obs_pos then
                 mark_fitted (fit_gamma gamma_fit s1 model_pos obs_pos)
               else fit gamma_fit (s1\<lparr>method := ''empirical''\<rparr>) mdata odata)
         else mark_fitted (s1, None))"
  by pat_completeness auto
termination
  by (relation "measure (\<lambda>(gamma_fit, s, mdata, odata).
                   if method s = ''parametric_gamma'' then 1 else 0)") auto

definition transform ::
  "('g \<Rightarrow> real \<Rightarrow> real option) \<Rightarrow> ('g \<Rightarrow> real \<Rightarrow> real option) \<Rightarrow> 'g qm \<Rightarrow> real list
     \<Rightarrow> error + real option list" where
  \<comment> \<open>\<open>gamma_cdf\<close> and \<open>gamma_ppf\<close> are \<^verbatim>\<open>stats.gamma.cdf\<close> and \<^verbatim>\<open>stats.gamma.ppf\<close>\<close>
  "transform gamma_cdf gamma_ppf s model_values =
     (if \<not> fitted s then Inl ValueError
      else if method s = ''empirical'' then
        (case model_to_quantile s of
           None \<Rightarrow> Inl AttributeError
         | Some f \<Rightarrow>
             (let qs = map (interp1d_call f) model_values
              in case quantile_to_obs s of
                   None \<Rightarrow> Inl AttributeError
                 | Some g \<Rightarrow> Inr (map (\<lambda>q. Some (interp1d_call g q)) qs)))
      else if method s = ''parametric_normal'' then
        (case (model_mean s, model_std s, obs_std s, obs_mean s) of
           (Some mm, Some ms, Some os, Some om) \<Rightarrow>
             (let z_scores = map (\<lambda>v. fl_div (fl_sub (Some v) mm) ms) model_values
              in Inr (map (\<lambda>z. fl_add (fl_mul z os) om) z_scores))
         | _ \<Rightarrow> Inl AttributeError)
      else if method s = ''parametric_gamma'' then
        (if list_ex (\<lambda>v. 0 < v) model_values then
           (case (model_gamma s, obs_gamma s) of
              (Some mg, Some og) \<Rightarrow>
                Inr (map (\<lambda>v. if 0 < v then Option.bind (gamma_cdf mg v) (gamma_ppf og)
                               else Some 0) model_values)
            | _ \<Rightarrow> Inl AttributeError)
         else Inr (map (\<lambda>v. Some 0) model_values))
      else Inl UnboundLocalError)"

record statistics =
  bias_before :: "real option"
  bias_after :: "real option"
  bias_reduction_percent :: "real option"
  rmse_before :: "real option"
  rmse_after :: "real option"
  rmse_reduction_percent :: "real option"
  var_ratio_before :: "real option"
  var_ratio_after :: "real option"
  ks_before :: "real \<times> real"
  ks_after :: "real \<times> real"

definition np_rmse :: "real list \<Rightarrow> real option" where
  \<comment> \<open>\<^verbatim>\<open>np.sqrt(np.mean(d**2))\<close>\<close>
  "np_rmse d = Option.bind (np_mean (map (\<lambda>x. x\<^sup>2) d)) np_sqrt"

definition compute_statistics ::
  "(real list \<Rightarrow> real list \<Rightarrow> real \<times> real) \<Rightarrow> real list \<Rightarrow> real list \<Rightarrow> real list
     \<Rightarrow> error + statistics" where
  \<comment> \<open>\<open>ks\<close> is \<^verbatim>\<open>stats.ks_2samp\<close> on two non-empty samples (statistic and p-value);
      \<^verbatim>\<open>ks_2samp\<close> raises ValueError when a sample is empty\<close>
  "compute_statistics ks mdata odata cdata =
     (let bias_before = fl_sub (np_mean mdata) (np_mean odata);
          bias_after = fl_sub (np_mean cdata) (np_mean odata)
      in case np_sub mdata odata of
           Inl e \<Rightarrow> Inl e
         | Inr d_before \<Rightarrow>
             (case np_sub cdata odata of
                Inl e \<Rightarrow> Inl e
              | Inr d_after \<Rightarrow>
                  (let rmse_before = np_rmse d_before;
                       rmse_after = np_rmse d_after;
                       var_ratio_before = fl_div (np_var mdata) (np_var odata);
                       var_ratio_after = fl_div (np_var cdata) (np_var odata)
                   in if mdata = [] \<or> odata = [] then Inl ValueError
                      else if cdata = [] then Inl ValueError
                      else Inr
                        \<lparr>bias_before = bias_before,
                         bias_after = bias_after,
                         bias_reduction_percent =
                           (if bias_before \<noteq> Some 0 then
                              fl_mul (fl_sub (Some 1)
                                (fl_div (map_option abs bias_after) (map_option abs bias_before)))
                                (Some 100)
                            else Some 100),
                         rmse_before = rmse_before,
                         rmse_after = rmse_after,
                         rmse_reduction_percent =
                           (if (case rmse_before of None \<Rightarrow> False | Some r \<Rightarrow> 0 < r) then
                              fl_mul (fl_sub (Some 1) (fl_div rmse_after rmse_before)) (Some 100)
                            else Some 0),
                         var_ratio_before = var_ratio_before,
                         var_ratio_after = var_ratio_after,
                         ks_before = ks mdata odata,
                         ks_after = ks cdata odata\<rparr>)))"

section \<open>Properties of BayesianModelAveraging\<close>

text \<open>
  C1. The claim: the residual variance that \<^verbatim>\<open>compute_weights\<close> stores for a model is
  the mean of the squared residuals plus 1e-10, as the docstring of
  \<^verbatim>\<open>estimate_variance\<close> says too. The source takes \<^verbatim>\<open>np.var\<close> of the residuals, which
  subtracts their mean first: for predictions \<open>[0, 0]\<close> and observations \<open>[1, 1]\<close> the
  residuals are \<open>[1, 1]\<close>, the source returns 1e-10 and the mean of the squared residuals
  plus 1e-10 is 1 + 1e-10.
\<close>

theorem estimate_variance_is_centred:
  "estimate_variance [0, 0] [1, 1] = Inr (1 / 10 ^ 10) \<and>
   spec_residual_variance [0, 0] [1, 1] = Inr (1 + 1 / 10 ^ 10)"
  by (simp add: estimate_variance_def spec_residual_variance_def np_sub_def np_var_def
      np_mean_def)

text \<open>The log-likelihood is the formula of the claim.\<close>

lemma compute_log_likelihood_formula:
  assumes "length predictions = length observations" "0 < variance"
  shows "compute_log_likelihood predictions observations variance =
    Inr (- real (length observations) / 2 * ln (2 * pi * variance)
         - sum_list (map (\<lambda>r. r\<^sup>2) (map2 (-) observations predictions)) / (2 * variance))"
  using assms by (simp add: compute_log_likelihood_def np_sub_def Let_def)

subsection \<open>Dicts built by assignment\<close>




















text \<open>
  A prior entry that is 0 gives that model the weight 0, as in the source: with the prior
  \<open>{''A'': 0, ''B'': 1}\<close> and both models present the weights are 0 and 1.
\<close>

lemma zero_prior_weights:
  "snd (compute_weights (BayesianModelAveraging [''A'', ''B''])
         [(''A'', [20, 21, 22]), (''B'', [20, 21, 22])] [20, 21, 22]
         (Some [(''A'', 0), (''B'', 1)])) = Inr [(''A'', 0), (''B'', 1)]"
  by (simp add: compute_weights_def BayesianModelAveraging_def logsumexp_def finite_entries_def
      estimate_variance_def compute_log_likelihood_def np_sub_def np_var_def np_mean_def
      np_log_def dict_get_def weights_loop_def np_exp_minus_def Let_def)

subsection \<open>The variance loop of predict\<close>

text \<open>
  When every model of the input has a stored weight (as in \<^verbatim>\<open>run_bma\<close>), the rows of
  \<^verbatim>\<open>all_preds\<close> are the rows of the input and the loop computes the two variances of the
  decomposition.
\<close>

lemma variance_loop_aligned:
  assumes "\<forall>name\<in>fst ` set suf. map_of pw name \<noteq> None"
    and "\<forall>p\<in>snd ` set suf. length p = T"
    and "length bm = T" "length wv = T" "length bv = T"
  shows "variance_loop (length pre) suf pw (Some mv) (map snd (pre @ suf)) bm (wv, bv) =
     Inr (map (\<lambda>x. x + weighted_sum pw suf (\<lambda>name p. dict_get mv name 1)) wv,
          map (\<lambda>t. bv ! t + weighted_sum pw suf (\<lambda>name p. (p ! t - bm ! t)\<^sup>2)) [0..<T])"
  using assms
proof (induction suf arbitrary: pre wv bv)
  case Nil
  have "map (\<lambda>t. bv ! t) [0..<T] = bv" using map_nth[of bv] Nil.prems(5) by simp
  then show ?case by (simp add: weighted_sum_def)
next
  case (Cons a suf)
  obtain name p where a: "a = (name, p)" by (cases a)
  from Cons.prems(1) a obtain w where w: "map_of pw name = Some w" by auto
  have lp: "length p = T" using Cons.prems(2) a by simp
  let ?wv = "map (\<lambda>x. x + w * dict_get mv name 1) wv"
  let ?bv = "map2 (\<lambda>b (x, m). b + w * (x - m)\<^sup>2) bv (zip p bm)"
  have lens: "length ?wv = T" "length ?bv = T" using Cons.prems lp by simp_all
  have nth: "map snd (pre @ a # suf) ! length pre = p" using a by (simp add: nth_append)
  have idx: "\<not> length (map snd (pre @ a # suf)) \<le> length pre" by simp
  have ih: "variance_loop (length (pre @ [a])) suf pw (Some mv) (map snd ((pre @ [a]) @ suf)) bm
        (?wv, ?bv) =
     Inr (map (\<lambda>x. x + weighted_sum pw suf (\<lambda>name p. dict_get mv name 1)) ?wv,
          map (\<lambda>t. ?bv ! t + weighted_sum pw suf (\<lambda>name p. (p ! t - bm ! t)\<^sup>2)) [0..<T])"
    using Cons.prems lens by (intro Cons.IH) simp_all
  have step: "variance_loop (length pre) (a # suf) pw (Some mv) (map snd (pre @ a # suf)) bm (wv, bv)
      = variance_loop (length (pre @ [a])) suf pw (Some mv) (map snd ((pre @ [a]) @ suf)) bm (?wv, ?bv)"
    unfolding a using w nth idx by (simp add: Let_def a)
  have dw: "dict_get pw name 0 = w" using w by (simp add: dict_get_def)
  have e1: "map (\<lambda>x. x + weighted_sum pw suf (\<lambda>name p. dict_get mv name 1)) ?wv =
            map (\<lambda>x. x + weighted_sum pw (a # suf) (\<lambda>name p. dict_get mv name 1)) wv"
    by (simp add: weighted_sum_def a dw algebra_simps)
  have e2: "map (\<lambda>t. ?bv ! t + weighted_sum pw suf (\<lambda>name p. (p ! t - bm ! t)\<^sup>2)) [0..<T] =
            map (\<lambda>t. bv ! t + weighted_sum pw (a # suf) (\<lambda>name p. (p ! t - bm ! t)\<^sup>2)) [0..<T]"
    using Cons.prems(3,5) lp by (auto simp: weighted_sum_def a dw algebra_simps)
  show ?case unfolding step ih e1 e2 ..
qed

lemma predict_moments_aligned:
  assumes pw: "posterior_weights b = Some pw" and mv: "model_variances b = Some mv"
    and ne: "models_predictions \<noteq> []"
    and keys: "\<forall>name\<in>fst ` set models_predictions. map_of pw name \<noteq> None"
    and len: "\<forall>p\<in>snd ` set models_predictions. length p = T"
  shows "\<exists>bma_mean.
    bma_mean = map (\<lambda>t. weighted_sum pw models_predictions (\<lambda>name p. p ! t)) [0..<T] \<and>
    predict_moments b models_predictions =
      Inr (bma_mean,
           replicate T (weighted_sum pw models_predictions (\<lambda>name p. dict_get mv name 1)),
           map (\<lambda>t. weighted_sum pw models_predictions (\<lambda>name p. (p ! t - bma_mean ! t)\<^sup>2))
             [0..<T])"
proof -
  let ?mp = models_predictions
  have filt: "filter (\<lambda>(name, p). map_of pw name \<noteq> None) ?mp = ?mp"
    using keys by (auto simp: filter_id_conv)
  have hdlen: "length (hd (map snd ?mp)) = T" using ne len by (cases ?mp) auto
  have nr: "\<not> ragged (map snd ?mp)" using len by (auto simp: ragged_def list_ex_iff hdlen)
  define bm where "bm = map (\<lambda>t. weighted_sum pw ?mp (\<lambda>name p. p ! t)) [0..<T]"
  have mean: "map (\<lambda>t. sum_list (map2 (\<lambda>w p. w * p ! t)
                  (map (\<lambda>(name, p). dict_get pw name 0) ?mp) (map snd ?mp))) [0..<T] = bm"
  proof -
    have "\<And>t. sum_list (map2 (\<lambda>w p. w * p ! t)
                  (map (\<lambda>(name, p). dict_get pw name 0) ?mp) (map snd ?mp))
             = weighted_sum pw ?mp (\<lambda>name p. p ! t)"
      unfolding weighted_sum_def by (induction ?mp) auto
    then show ?thesis by (simp add: bm_def)
  qed
  have vl: "variance_loop 0 ?mp pw (Some mv) (map snd ?mp) bm (replicate T 0, replicate T 0) =
     Inr (map (\<lambda>x. x + weighted_sum pw ?mp (\<lambda>name p. dict_get mv name 1)) (replicate T 0),
          map (\<lambda>t. replicate T 0 ! t + weighted_sum pw ?mp (\<lambda>name p. (p ! t - bm ! t)\<^sup>2)) [0..<T])"
    using variance_loop_aligned[OF keys len, of bm "replicate T 0" "replicate T 0" "[]" mv]
    by (simp add: bm_def)
  have r2: "map (\<lambda>t. replicate T 0 ! t + weighted_sum pw ?mp (\<lambda>name p. (p ! t - bm ! t)\<^sup>2)) [0..<T]
      = map (\<lambda>t. weighted_sum pw ?mp (\<lambda>name p. (p ! t - bm ! t)\<^sup>2)) [0..<T]"
    by simp
  have "predict_moments b ?mp =
      Inr (bm, replicate T (weighted_sum pw ?mp (\<lambda>name p. dict_get mv name 1)),
           map (\<lambda>t. weighted_sum pw ?mp (\<lambda>name p. (p ! t - bm ! t)\<^sup>2)) [0..<T])"
    unfolding predict_moments_def pw mv option.case Let_def filt hdlen mean vl r2
    using nr ne by simp
  then show ?thesis unfolding bm_def by blast
qed

text \<open>
  C8. The claim: for any \<^verbatim>\<open>models_predictions\<close> given to \<^verbatim>\<open>predict\<close>, the variance behind
  the returned standard deviation is the within-model plus the between-model variance over
  the models present both in the input and in the stored weights. The loop of the source
  reads \<^verbatim>\<open>all_preds[i]\<close> with the position i of the name in \<^verbatim>\<open>models_predictions\<close>, while
  \<^verbatim>\<open>all_preds\<close> holds the rows of the weighted models only: with the weights of
  \<open>[''A'']\<close> and the input \<open>{''X'': [0], ''A'': [1]}\<close> the row of A is \<^verbatim>\<open>all_preds[0]\<close>, the
  loop reads \<^verbatim>\<open>all_preds[1]\<close> and \<^verbatim>\<open>predict\<close> raises IndexError.
\<close>

theorem predict_index_misaligned:
  "posterior_weights
     (fst (compute_weights (BayesianModelAveraging [''A'']) [(''A'', [1])] [1] None))
     = Some [(''A'', 1)] \<and>
   predict (fst (compute_weights (BayesianModelAveraging [''A'']) [(''A'', [1])] [1] None))
     [(''X'', [0]), (''A'', [1])] = Inl IndexError"
  by (simp add: compute_weights_def BayesianModelAveraging_def uniform_prior_def logsumexp_def
      estimate_variance_def np_sub_def np_var_def np_mean_def compute_log_likelihood_def
      np_log_def finite_entries_def np_exp_minus_def weights_loop_def predict_def
      predict_moments_def ragged_def dict_get_def Let_def)

section \<open>Properties of QuantileMappingCorrection\<close>

subsection \<open>Linear interpolation stays between its nodes\<close>

lemma lerp_between:
  fixes x0 x1 v ya yb :: real
  assumes "x0 < v" "v < x1"
  shows "min ya yb \<le> (yb - ya) / (x1 - x0) * (v - x0) + ya"
    and "(yb - ya) / (x1 - x0) * (v - x0) + ya \<le> max ya yb"
proof -
  define t where "t = (v - x0) / (x1 - x0)"
  have t: "0 < t" "t < 1" using assms by (simp_all add: t_def)
  have e: "(yb - ya) / (x1 - x0) * (v - x0) + ya = ya + (yb - ya) * t"
    by (simp add: t_def)
  show "min ya yb \<le> (yb - ya) / (x1 - x0) * (v - x0) + ya"
  proof (cases "ya \<le> yb")
    case True
    then have "0 \<le> (yb - ya) * t" using t by simp
    then show ?thesis using True unfolding e by simp
  next
    case False
    then have "(ya - yb) * t \<le> (ya - yb) * 1" using t by (intro mult_left_mono) simp_all
    then show ?thesis using False unfolding e by (simp add: algebra_simps)
  qed
  show "(yb - ya) / (x1 - x0) * (v - x0) + ya \<le> max ya yb"
  proof (cases "ya \<le> yb")
    case True
    then have "(yb - ya) * t \<le> (yb - ya) * 1" using t by (intro mult_left_mono) simp_all
    then show ?thesis using True unfolding e by (simp add: algebra_simps)
  next
    case False
    then have "(yb - ya) * t \<le> 0" using t by (simp add: mult_le_0_iff)
    then show ?thesis using False unfolding e by simp
  qed
qed

lemma np_interp_range:
  "length xp = length fp \<Longrightarrow> xp \<noteq> [] \<Longrightarrow> hd xp \<le> v \<Longrightarrow>
   \<exists>lo\<in>set fp. \<exists>hi\<in>set fp. lo \<le> np_interp xp fp v \<and> np_interp xp fp v \<le> hi"
proof (induction xp fp v rule: np_interp.induct)
  case (1 x0 x1 xp y0 y1 fp v)
  show ?case
  proof (cases "v < x1")
    case True
    show ?thesis
    proof (cases "x0 = v")
      case True
      with \<open>v < x1\<close> show ?thesis by auto
    next
      case False
      then have "x0 < v" using "1.prems" by simp
      from lerp_between[OF this True, where ya = y0 and yb = y1]
      have "min y0 y1 \<le> np_interp (x0 # x1 # xp) (y0 # y1 # fp) v"
        "np_interp (x0 # x1 # xp) (y0 # y1 # fp) v \<le> max y0 y1"
        using True False by simp_all
      moreover have "min y0 y1 \<in> set (y0 # y1 # fp)" "max y0 y1 \<in> set (y0 # y1 # fp)"
        by (auto simp: min_def max_def)
      ultimately show ?thesis by blast
    qed
  next
    case False
    then have "\<exists>lo\<in>set (y1 # fp). \<exists>hi\<in>set (y1 # fp).
        lo \<le> np_interp (x1 # xp) (y1 # fp) v \<and> np_interp (x1 # xp) (y1 # fp) v \<le> hi"
      using "1.IH" "1.prems" by simp
    then show ?thesis using False by auto
  qed
next
  case (2 x0 y0 fp v)
  then show ?case by simp
qed simp_all

lemma interp1d_call_range:
  assumes "length (ix g) = length (iy g)" "ix g \<noteq> []"
    "fill_value_below g \<in> set (iy g)" "fill_value_above g \<in> set (iy g)"
  shows "Min (set (iy g)) \<le> interp1d_call g q \<and> interp1d_call g q \<le> Max (set (iy g))"
proof -
  have "\<exists>lo\<in>set (iy g). \<exists>hi\<in>set (iy g). lo \<le> interp1d_call g q \<and> interp1d_call g q \<le> hi"
  proof (cases "q < hd (ix g) \<or> last (ix g) < q")
    case True
    then show ?thesis using assms(3,4) by (auto simp: interp1d_call_def)
  next
    case False
    then have "hd (ix g) \<le> q" by simp
    from np_interp_range[OF assms(1,2) this] show ?thesis using False
      by (simp add: interp1d_call_def)
  qed
  then obtain lo hi where "lo \<in> set (iy g)" "hi \<in> set (iy g)"
    "lo \<le> interp1d_call g q" "interp1d_call g q \<le> hi" by blast
  moreover have "Min (set (iy g)) \<le> lo" "hi \<le> Max (set (iy g))"
    using calculation(1,2) by simp_all
  ultimately show ?thesis by linarith
qed

lemma fit_empirical_cases:
  "snd (fit_empirical s sm so) =
     (if length sm = 0 then Some ValueError
      else if so = [] then Some IndexError
      else if length so \<noteq> length sm then Some ValueError
      else None)"
  by (auto simp: fit_empirical_def new_interp1d_def Let_def simp del: upt_Suc)

lemma mark_fitted_snd [simp]: "snd (mark_fitted r) = snd r"
  by (cases r; cases "snd r") auto

lemma mark_fitted_method [simp]: "method (fst (mark_fitted r)) = method (fst r)"
  by (cases r; cases "snd r") auto

lemma fit_empirical_method [simp]: "method (fst (fit_empirical s sm so)) = method s"
  by (auto simp: fit_empirical_def Let_def split: sum.splits)

lemma fit_as_empirical:
  "method s = ''empirical'' \<Longrightarrow>
   fit gf s md od =
     mark_fitted (fit_empirical (s\<lparr>model_data := Some (sort md), obs_data := Some (sort od)\<rparr>)
                    (sort md) (sort od))"
  by (simp add: Let_def)

lemma sort_eq_Nil [simp]: "(sort xs = []) = (xs = ([]::real list))"
proof -
  have "length (sort xs) = length xs" by simp
  then show ?thesis by (metis length_0_conv)
qed

lemma fit_empirical_ok:
  assumes "snd (fit_empirical s sm so) = None"
  shows "sm \<noteq> [] \<and> so \<noteq> [] \<and> length so = length sm \<and>
    (\<exists>q f. length q = length so \<and>
       fst (mark_fitted (fit_empirical s sm so)) =
       s\<lparr>quantiles := Some q, model_to_quantile := Some f,
          quantile_to_obs :=
            Some \<lparr>ix = q, iy = so, fill_value_below = hd so, fill_value_above = last so\<rparr>,
          fitted := True\<rparr>)"
proof -
  have c: "sm \<noteq> []" "so \<noteq> []" "length so = length sm"
    using assms unfolding fit_empirical_cases by (auto split: if_splits)
  let ?q = "map (\<lambda>i. (real i - 1 / 2) / real (length sm)) [1..<length sm + 1]"
  let ?f = "\<lparr>ix = sm, iy = ?q, fill_value_below = 0, fill_value_above = 1\<rparr>"
  have "length ?q = length so" using c by (simp add: Suc_le_eq)
  moreover have "fst (mark_fitted (fit_empirical s sm so)) =
       s\<lparr>quantiles := Some ?q, model_to_quantile := Some ?f,
          quantile_to_obs :=
            Some \<lparr>ix = ?q, iy = so, fill_value_below = hd so, fill_value_above = last so\<rparr>,
          fitted := True\<rparr>"
    using c by (simp add: fit_empirical_def new_interp1d_def Let_def Suc_le_eq del: upt_Suc)
  ultimately show ?thesis using c by blast
qed

lemma empirical_clamped:
  assumes m: "method s = ''empirical''" and ok: "snd (fit gf s md od) = None"
  shows "\<exists>ys. transform gc gp (fst (fit gf s md od)) vs = Inr (map Some ys) \<and>
           length ys = length vs \<and>
           (\<forall>y\<in>set ys. Min (set od) \<le> y \<and> y \<le> Max (set od))"
proof -
  let ?s1 = "s\<lparr>model_data := Some (sort md), obs_data := Some (sort od)\<rparr>"
  have fe: "fit gf s md od = mark_fitted (fit_empirical ?s1 (sort md) (sort od))"
    by (rule fit_as_empirical[OF m])
  have "snd (fit_empirical ?s1 (sort md) (sort od)) = None" using ok unfolding fe by simp
  from fit_empirical_ok[OF this] obtain q f where
    ne: "sort od \<noteq> []" and lq: "length q = length (sort od)" and
    st: "fst (fit gf s md od) =
       ?s1\<lparr>quantiles := Some q, model_to_quantile := Some f,
          quantile_to_obs :=
            Some \<lparr>ix = q, iy = sort od, fill_value_below = hd (sort od),
                  fill_value_above = last (sort od)\<rparr>,
          fitted := True\<rparr>"
    unfolding fe by blast
  define g where "g = \<lparr>ix = q, iy = sort od, fill_value_below = hd (sort od),
                  fill_value_above = last (sort od)\<rparr>"
  have g: "length (ix g) = length (iy g)" "ix g \<noteq> []" "set (iy g) = set od"
    using lq ne by (auto simp: g_def)
  have fb: "fill_value_below g \<in> set (iy g)" "fill_value_above g \<in> set (iy g)"
    using hd_in_set[OF ne] last_in_set[OF ne] by (simp_all add: g_def)
  let ?ys = "map (\<lambda>v. interp1d_call g (interp1d_call f v)) vs"
  have tr: "transform gc gp (fst (fit gf s md od)) vs = Inr (map Some ?ys)"
    unfolding st g_def[symmetric] by (simp add: transform_def m Let_def o_def)
  have "\<forall>y\<in>set ?ys. Min (set od) \<le> y \<and> y \<le> Max (set od)"
    using interp1d_call_range[OF g(1,2) fb] unfolding g(3) by auto
  then show ?thesis using tr by (intro exI[of _ ?ys]) simp
qed

lemma fit_empirical_succeeds:
  assumes "method s = ''empirical''" "md \<noteq> []" "length od = length md"
  shows "snd (fit gf s md od) = None"
  using assms unfolding fit_as_empirical[OF assms(1)]
  by (auto simp: fit_empirical_cases)

text \<open>
  C3. The claim: for every finite non-empty \<^verbatim>\<open>model_data\<close> and \<^verbatim>\<open>obs_data\<close>, after fitting
  with the empirical method every element of \<^verbatim>\<open>transform(model_data)\<close> lies between the
  smallest and the largest observation. As stated it fails when the two series differ in
  length: for \<open>[1, 2, 3]\<close> and \<open>[1, 2]\<close> the second \<^verbatim>\<open>interp1d\<close> gets three quantiles and two
  observations and raises ValueError, the corrector is not fitted, and \<^verbatim>\<open>transform\<close> raises
  ValueError in its turn.
\<close>

theorem empirical_unequal_length_counterexample:
  "snd (fit (\<lambda>_. Inr ()) (QuantileMappingCorrection ''empirical'' :: unit qm) [1, 2, 3] [1, 2])
     = Some ValueError \<and>
   transform (\<lambda>_ _. None) (\<lambda>_ _. None)
     (fst (fit (\<lambda>_. Inr ()) (QuantileMappingCorrection ''empirical'' :: unit qm)
            [1, 2, 3] [1, 2])) [1, 2, 3] = Inl ValueError"
  by (simp add: QuantileMappingCorrection_def fit_empirical_def new_interp1d_def transform_def
      Let_def)

text \<open>
  C3, amended. For every non-empty \<^verbatim>\<open>model_data\<close> and every \<^verbatim>\<open>obs_data\<close> of the same
  length, \<^verbatim>\<open>fit\<close> with the empirical method returns, and \<^verbatim>\<open>transform(model_data)\<close> returns
  finite values that all lie between the smallest and the largest observation.
\<close>

theorem empirical_transform_within_obs_range:
  assumes "method s = ''empirical''" and "mdata \<noteq> []" and "length odata = length mdata"
  shows "snd (fit gamma_fit s mdata odata) = None \<and>
         (\<exists>ys. transform gamma_cdf gamma_ppf (fst (fit gamma_fit s mdata odata)) mdata
                 = Inr (map Some ys) \<and>
               length ys = length mdata \<and>
               (\<forall>y\<in>set ys. Min (set odata) \<le> y \<and> y \<le> Max (set odata)))"
proof -
  have ok: "snd (fit gamma_fit s mdata odata) = None"
    using assms by (rule fit_empirical_succeeds)
  from empirical_clamped[OF assms(1) ok] show ?thesis using ok by blast
qed

theorem empirical_transform_within_obs_range_witness:
  "snd (fit (\<lambda>_. Inl ValueError) (QuantileMappingCorrection ''empirical'' :: unit qm)
         [1, 2, 3, 4, 5] [2, 3, 4, 5, 6]) = None \<and>
   (\<exists>ys. transform (\<lambda>_ _. None) (\<lambda>_ _. None)
           (fst (fit (\<lambda>_. Inl ValueError) (QuantileMappingCorrection ''empirical'' :: unit qm)
                  [1, 2, 3, 4, 5] [2, 3, 4, 5, 6])) [1, 2, 3, 4, 5] = Inr (map Some ys) \<and>
         length ys = 5 \<and> (\<forall>y\<in>set ys. 2 \<le> y \<and> y \<le> 6))"
proof -
  let ?s = "QuantileMappingCorrection ''empirical'' :: unit qm"
  have 1: "method ?s = ''empirical''" by (simp add: QuantileMappingCorrection_def)
  have 2: "[1, 2, 3, 4, 5 :: real] \<noteq> []"
    "length [2, 3, 4, 5, 6 :: real] = length [1, 2, 3, 4, 5 :: real]" by simp_all
  have 3: "Min (set [2, 3, 4, 5, 6 :: real]) = 2" "Max (set [2, 3, 4, 5, 6 :: real]) = 6"
    by simp_all
  from empirical_transform_within_obs_range[OF 1 2,
      of "\<lambda>_. Inl ValueError" "\<lambda>_ _. None" "\<lambda>_ _. None"]
  obtain ys where ok:
    "snd (fit (\<lambda>_. Inl ValueError) ?s [1, 2, 3, 4, 5] [2, 3, 4, 5, 6]) = None" and a:
    "transform (\<lambda>_ _. None) (\<lambda>_ _. None)
       (fst (fit (\<lambda>_. Inl ValueError) ?s [1, 2, 3, 4, 5] [2, 3, 4, 5, 6])) [1, 2, 3, 4, 5]
       = Inr (map Some ys)"
    "length ys = length [1, 2, 3, 4, 5 :: real]"
    "\<forall>y\<in>set ys. Min (set [2, 3, 4, 5, 6]) \<le> y \<and> y \<le> Max (set [2, 3, 4, 5, 6])"
    by blast
  have "length ys = 5" using a(2) by simp
  moreover have "\<forall>y\<in>set ys. 2 \<le> y \<and> y \<le> 6" using a(3) unfolding 3 .
  ultimately show ?thesis using ok a(1) by blast
qed

lemma scenario_shift:
  "transform gc gp (fst (fit gf (QuantileMappingCorrection ''empirical'') [1, 2, 3, 4, 5] [2, 3, 4, 5, 6]))
     [1, 2, 3, 4, 5] = Inr [Some 2, Some 3, Some 4, Some 5, Some 6]"
  by (simp add: QuantileMappingCorrection_def fit_empirical_def new_interp1d_def transform_def
      interp1d_call_def upt_rec Let_def)

subsection \<open>The fallback of the gamma method\<close>

lemma fit_gamma_fallback:
  assumes "method s = ''parametric_gamma''"
    and "\<not> (2 < length (filter (\<lambda>x. 0 < x) md) \<and> 2 < length (filter (\<lambda>x. 0 < x) od))"
  shows "fit gf s md od = fit gf (s\<lparr>method := ''empirical''\<rparr>) md od"
proof -
  let ?s1 = "s\<lparr>model_data := Some (sort md), obs_data := Some (sort od)\<rparr>"
  have "fit gf s md od = fit gf (?s1\<lparr>method := ''empirical''\<rparr>) md od"
    using assms by (subst fit.simps) (auto simp: Let_def)
  also have "\<dots> = mark_fitted (fit_empirical
       (?s1\<lparr>method := ''empirical'', model_data := Some (sort md), obs_data := Some (sort od)\<rparr>)
       (sort md) (sort od))"
    by (subst fit_as_empirical) simp_all
  also have "\<dots> = fit gf (s\<lparr>method := ''empirical''\<rparr>) md od"
    by (subst fit_as_empirical) simp_all
  finally show ?thesis .
qed



text \<open>
  C10. After the fallback the attribute \<^verbatim>\<open>method\<close> of the instance is \<open>''empirical''\<close>, and
  every later \<^verbatim>\<open>fit\<close> on that instance, whatever its data, runs the empirical branch and
  leaves \<^verbatim>\<open>method\<close> at \<open>''empirical''\<close>.
\<close>

theorem gamma_fallback_overwrites_method:
  assumes "method s = ''parametric_gamma''"
    and "\<not> (2 < length (filter (\<lambda>x. 0 < x) mdata) \<and> 2 < length (filter (\<lambda>x. 0 < x) odata))"
  shows "method (fst (fit gamma_fit s mdata odata)) = ''empirical'' \<and>
    (\<forall>mdata' odata'.
       fit gamma_fit (fst (fit gamma_fit s mdata odata)) mdata' odata' =
         mark_fitted (fit_empirical
           ((fst (fit gamma_fit s mdata odata))
              \<lparr>model_data := Some (sort mdata'), obs_data := Some (sort odata')\<rparr>)
           (sort mdata') (sort odata')) \<and>
       method (fst (fit gamma_fit (fst (fit gamma_fit s mdata odata)) mdata' odata'))
         = ''empirical'')"
proof -
  have e: "fit gamma_fit s mdata odata = fit gamma_fit (s\<lparr>method := ''empirical''\<rparr>) mdata odata"
    using assms by (rule fit_gamma_fallback)
  have m: "method (fst (fit gamma_fit s mdata odata)) = ''empirical''"
    unfolding e by (subst fit_as_empirical) simp_all
  show ?thesis using m fit_as_empirical[OF m] by simp
qed

theorem gamma_fallback_overwrites_method_witness:
  "method (fst (fit (\<lambda>_. Inr ()) (QuantileMappingCorrection ''parametric_gamma'' :: unit qm)
                  [0, 0, 5] [1, 2, 3])) = ''empirical'' \<and>
   model_gamma (fst (fit (\<lambda>_. Inr ())
        (fst (fit (\<lambda>_. Inr ()) (QuantileMappingCorrection ''parametric_gamma'' :: unit qm)
                  [0, 0, 5] [1, 2, 3]))
        [1, 2, 3, 4] [1, 2, 3, 4])) = None \<and>
   method (fst (fit (\<lambda>_. Inr ())
        (fst (fit (\<lambda>_. Inr ()) (QuantileMappingCorrection ''parametric_gamma'' :: unit qm)
                  [0, 0, 5] [1, 2, 3]))
        [1, 2, 3, 4] [1, 2, 3, 4])) = ''empirical''"
proof -
  let ?s = "QuantileMappingCorrection ''parametric_gamma'' :: unit qm"
  let ?gf = "\<lambda>_ :: real list. Inr () :: error + unit"
  have 1: "method ?s = ''parametric_gamma''" by (simp add: QuantileMappingCorrection_def)
  have 2: "\<not> (2 < length (filter (\<lambda>x. 0 < x) [0, 0, 5 :: real]) \<and>
              2 < length (filter (\<lambda>x. 0 < x) [1, 2, 3 :: real]))" by simp
  note t = gamma_fallback_overwrites_method[OF 1 2, of ?gf]
  let ?s1 = "fst (fit ?gf ?s [0, 0, 5] [1, 2, 3])"
  have a: "method ?s1 = ''empirical''" using t by blast
  have b: "fit ?gf ?s1 [1, 2, 3, 4] [1, 2, 3, 4] =
      mark_fitted (fit_empirical
           (?s1\<lparr>model_data := Some (sort [1, 2, 3, 4]), obs_data := Some (sort [1, 2, 3, 4])\<rparr>)
           (sort [1, 2, 3, 4]) (sort [1, 2, 3, 4]))"
    and c: "method (fst (fit ?gf ?s1 [1, 2, 3, 4] [1, 2, 3, 4])) = ''empirical''"
    using t by blast+
  have g0: "model_gamma ?s1 = None"
    by (simp add: QuantileMappingCorrection_def fit_empirical_def new_interp1d_def Let_def)
  have "model_gamma (fst (fit ?gf ?s1 [1, 2, 3, 4] [1, 2, 3, 4])) = model_gamma ?s1"
    unfolding b by (simp add: fit_empirical_def new_interp1d_def Let_def)
  then show ?thesis using a c g0 by simp
qed

subsection \<open>What fit raises, and the unguarded divisions\<close>

text \<open>
  C4. The claim: every division is guarded, and \<^verbatim>\<open>transform\<close> with parametric_normal
  returns finite values when the fitted standard deviation of the model is zero. The
  source divides by \<^verbatim>\<open>self.model_std\<close> as it is: after a fit on the constant series
  \<open>[1, 1]\<close> the standard deviation is 0 and the value 1 is mapped to 0/0. The variance
  ratios of \<^verbatim>\<open>compute_statistics\<close> divide by the variance of the observations in the same
  way.
\<close>

theorem transform_normal_zero_std:
  "model_std (fst (fit (\<lambda>_. Inr ())
       (QuantileMappingCorrection ''parametric_normal'' :: unit qm) [1, 1] [2, 3]))
     = Some (Some 0) \<and>
   transform (\<lambda>_ _. None) (\<lambda>_ _. None)
     (fst (fit (\<lambda>_. Inr ())
       (QuantileMappingCorrection ''parametric_normal'' :: unit qm) [1, 1] [2, 3]))
     [1] = Inr [None] \<and>
   map_sum id var_ratio_before (compute_statistics (\<lambda>_ _. (0, 1)) [1, 2] [3, 3] [3, 3])
     = Inr None"
  by (simp add: QuantileMappingCorrection_def np_mean_def np_std_def np_var_def transform_def
      compute_statistics_def np_sub_def Let_def)

text \<open>
  C5. The claim: \<^verbatim>\<open>fit\<close> raises on an unsupported method name and on series of fewer
  than 2 points. The source checks neither: with the method \<open>''foo''\<close> no branch is taken
  and the corrector is marked fitted, and one point per series is enough for the
  empirical method.
\<close>

theorem fit_accepts_counterexample:
  "snd (fit (\<lambda>_. Inr ()) (QuantileMappingCorrection ''foo'' :: unit qm) [1] [1]) = None \<and>
   fitted (fst (fit (\<lambda>_. Inr ()) (QuantileMappingCorrection ''foo'' :: unit qm) [1] [1])) \<and>
   snd (fit (\<lambda>_. Inr ()) (QuantileMappingCorrection ''empirical'' :: unit qm) [1] [1]) = None \<and>
   fitted (fst (fit (\<lambda>_. Inr ()) (QuantileMappingCorrection ''empirical'' :: unit qm) [1] [1]))"
  by (simp add: QuantileMappingCorrection_def fit_empirical_def new_interp1d_def Let_def)

lemma mark_fitted_fitted: "snd r = None \<Longrightarrow> fitted (fst (mark_fitted r))"
  by (cases r) auto

lemma fit_gamma_cases:
  "snd (fit_gamma gf s mp op) =
     (case gf mp of Inl e \<Rightarrow> Some e
      | Inr mg \<Rightarrow> (case gf op of Inl e \<Rightarrow> Some e | Inr og \<Rightarrow> None))"
  by (simp add: fit_gamma_def split: sum.splits)

text \<open>
  C5, amended. \<^verbatim>\<open>fit\<close> validates nothing itself; what it raises comes from the calls it
  makes, at once. With the empirical method (also as the fallback of parametric_gamma) it
  raises ValueError when the model series is empty or the lengths differ and IndexError
  when only the observations are empty; with parametric_gamma on at least 3 positive
  values per series it raises what \<^verbatim>\<open>gamma.fit\<close> raises; with parametric_normal or any
  other method name it raises nothing. Whenever it raises nothing the corrector is marked
  fitted.
\<close>

theorem fit_raises_exactly_when:
  "snd (fit gamma_fit s mdata odata) =
     (let model_pos = filter (\<lambda>x. 0 < x) mdata; obs_pos = filter (\<lambda>x. 0 < x) odata
      in if method s = ''empirical'' \<or>
            method s = ''parametric_gamma'' \<and> \<not> (2 < length model_pos \<and> 2 < length obs_pos)
         then (if mdata = [] then Some ValueError
               else if odata = [] then Some IndexError
               else if length odata \<noteq> length mdata then Some ValueError
               else None)
         else if method s = ''parametric_gamma''
         then (case gamma_fit model_pos of
                 Inl e \<Rightarrow> Some e
               | Inr mg \<Rightarrow> (case gamma_fit obs_pos of Inl e \<Rightarrow> Some e | Inr og \<Rightarrow> None))
         else None) \<and>
   (snd (fit gamma_fit s mdata odata) = None \<longrightarrow> fitted (fst (fit gamma_fit s mdata odata)))"
proof -
  let ?s1 = "s\<lparr>model_data := Some (sort mdata), obs_data := Some (sort odata)\<rparr>"
  let ?mp = "filter (\<lambda>x. 0 < x) mdata" and ?op = "filter (\<lambda>x. 0 < x) odata"
  consider (emp) "method s = ''empirical''"
    | (fb) "method s = ''parametric_gamma''" "\<not> (2 < length ?mp \<and> 2 < length ?op)"
    | (gam) "method s = ''parametric_gamma''" "2 < length ?mp \<and> 2 < length ?op"
    | (norm) "method s = ''parametric_normal''"
    | (other) "method s \<noteq> ''empirical''" "method s \<noteq> ''parametric_gamma''"
        "method s \<noteq> ''parametric_normal''"
    by blast
  then show ?thesis
  proof cases
    case emp
    have e: "fit gamma_fit s mdata odata = mark_fitted (fit_empirical ?s1 (sort mdata) (sort odata))"
      by (rule fit_as_empirical[OF emp])
    show ?thesis unfolding e using emp
      by (auto simp: fit_empirical_cases Let_def intro: mark_fitted_fitted)
  next
    case fb
    have m: "method (s\<lparr>method := ''empirical''\<rparr>) = ''empirical''" by simp
    have e: "fit gamma_fit s mdata odata =
        mark_fitted (fit_empirical
          (s\<lparr>method := ''empirical'', model_data := Some (sort mdata), obs_data := Some (sort odata)\<rparr>)
          (sort mdata) (sort odata))"
      unfolding fit_gamma_fallback[OF fb] fit_as_empirical[OF m] by simp
    show ?thesis unfolding e using fb
      by (auto simp: fit_empirical_cases Let_def intro: mark_fitted_fitted)
  next
    case gam
    have e: "fit gamma_fit s mdata odata = mark_fitted (fit_gamma gamma_fit ?s1 ?mp ?op)"
      using gam by (subst fit.simps) (simp add: Let_def)
    show ?thesis unfolding e using gam
      by (auto simp: fit_gamma_cases Let_def intro: mark_fitted_fitted split: sum.splits)
  next
    case norm
    then show ?thesis by (subst (1 2 3) fit.simps) (simp add: Let_def)
  next
    case other
    then show ?thesis by (subst (1 2 3) fit.simps) (simp add: Let_def)
  qed
qed

theorem fit_raises_exactly_when_witness:
  "snd (fit (\<lambda>_. Inr ()) (QuantileMappingCorrection ''parametric_normal'' :: unit qm)
         [1, 2] [2, 4]) = None \<and>
   fitted (fst (fit (\<lambda>_. Inr ()) (QuantileMappingCorrection ''parametric_normal'' :: unit qm)
         [1, 2] [2, 4])) \<and>
   snd (fit (\<lambda>_. Inr ()) (QuantileMappingCorrection ''empirical'' :: unit qm) [] [])
     = Some ValueError \<and>
   snd (fit (\<lambda>_. Inr ()) (QuantileMappingCorrection ''empirical'' :: unit qm) [1, 2] [1, 2, 3])
     = Some ValueError"
proof -
  let ?gf = "\<lambda>_ :: real list. Inr () :: error + unit"
  have m: "method (QuantileMappingCorrection ''parametric_normal'' :: unit qm) = ''parametric_normal''"
    "method (QuantileMappingCorrection ''empirical'' :: unit qm) = ''empirical''"
    by (simp_all add: QuantileMappingCorrection_def)
  show ?thesis
    using fit_raises_exactly_when[of ?gf "QuantileMappingCorrection ''parametric_normal''" "[1, 2]" "[2, 4]"]
      fit_raises_exactly_when[of ?gf "QuantileMappingCorrection ''empirical''" "[]" "[]"]
      fit_raises_exactly_when[of ?gf "QuantileMappingCorrection ''empirical''" "[1, 2]" "[1, 2, 3]"]
    by (simp add: m Let_def)
qed

subsection \<open>The normal method without bias, and the statistics\<close>





lemma np_rmse_some:
  "d \<noteq> [] \<Longrightarrow> \<exists>r. np_rmse d = Some r \<and> 0 \<le> r"
  by (auto simp: np_rmse_def np_mean_def np_sqrt_def not_less
      intro!: divide_nonneg_nonneg sum_list_nonneg)

text \<open>
  C9. On non-empty series of one length \<^verbatim>\<open>compute_statistics\<close> returns, whatever the
  values: the bias reduction is \<open>(1 - |bias_after| / |bias_before|) * 100\<close> when
  \<open>bias_before\<close> is not 0 and 100 when it is, and the RMSE reduction is
  \<open>(1 - rmse_after / rmse_before) * 100\<close> when \<open>rmse_before\<close> is positive and 0 otherwise.
\<close>

theorem compute_statistics_reductions:
  assumes "mdata \<noteq> []" "length odata = length mdata" "length cdata = length mdata"
  shows "\<exists>st bb ba rb ra.
     compute_statistics ks mdata odata cdata = Inr st \<and>
     bias_before st = Some bb \<and> bias_after st = Some ba \<and>
     rmse_before st = Some rb \<and> rmse_after st = Some ra \<and>
     Some bb = fl_sub (np_mean mdata) (np_mean odata) \<and>
     Some ba = fl_sub (np_mean cdata) (np_mean odata) \<and>
     Some rb = np_rmse (map2 (-) mdata odata) \<and>
     Some ra = np_rmse (map2 (-) cdata odata) \<and>
     bias_reduction_percent st = Some (if bb \<noteq> 0 then (1 - \<bar>ba\<bar> / \<bar>bb\<bar>) * 100 else 100) \<and>
     rmse_reduction_percent st = Some (if 0 < rb then (1 - ra / rb) * 100 else 0)"
proof -
  have ne: "odata \<noteq> []" "cdata \<noteq> []" using assms by auto
  obtain mm om cm where means:
    "np_mean mdata = Some mm" "np_mean odata = Some om" "np_mean cdata = Some cm"
    using assms(1) ne by (simp add: np_mean_def)
  have d: "map2 (-) mdata odata \<noteq> []" "map2 (-) cdata odata \<noteq> []"
    using assms ne by (cases mdata; cases odata; cases cdata; simp)+
  from np_rmse_some[OF d(1)] obtain rb where rb: "np_rmse (map2 (-) mdata odata) = Some rb" "0 \<le> rb"
    by blast
  from np_rmse_some[OF d(2)] obtain ra where ra: "np_rmse (map2 (-) cdata odata) = Some ra" "0 \<le> ra"
    by blast
  have subs: "np_sub mdata odata = Inr (map2 (-) mdata odata)"
    "np_sub cdata odata = Inr (map2 (-) cdata odata)"
    using assms by (simp_all add: np_sub_def)
  show ?thesis
    unfolding compute_statistics_def subs
    using assms(1) ne by (simp add: Let_def means rb ra)
qed

theorem compute_statistics_reductions_witness:
  "\<exists>st. compute_statistics (\<lambda>_ _. (0, 1)) [1, 2] [1, 2] [1, 2] = Inr st \<and>
        bias_before st = Some 0 \<and> bias_reduction_percent st = Some 100 \<and>
        rmse_before st = Some 0 \<and> rmse_reduction_percent st = Some 0"
proof -
  have 1: "[1, 2 :: real] \<noteq> []" "length [1, 2 :: real] = length [1, 2 :: real]" by simp_all
  from compute_statistics_reductions[OF 1(1) 1(2) 1(2), of "\<lambda>_ _. (0, 1)"]
  obtain st bb ba rb ra where a:
    "compute_statistics (\<lambda>_ _. (0, 1)) [1, 2] [1, 2] [1, 2] = Inr st"
    "bias_before st = Some bb" "rmse_before st = Some rb"
    "Some bb = fl_sub (np_mean [1, 2]) (np_mean [1, 2])"
    "Some rb = np_rmse (map2 (-) [1, 2] [1, 2])"
    "bias_reduction_percent st = Some (if bb \<noteq> 0 then (1 - \<bar>ba\<bar> / \<bar>bb\<bar>) * 100 else 100)"
    "rmse_reduction_percent st = Some (if 0 < rb then (1 - ra / rb) * 100 else 0)"
    by blast
  have "bb = 0" using a(4) by (simp add: np_mean_def)
  moreover have "rb = 0" using a(5) by (simp add: np_rmse_def np_mean_def np_sqrt_def)
  ultimately show ?thesis using a by auto
qed

end
